theory Spec2Isabelle
  imports Main "HOL-Library.AList"
begin

section \<open>Data model\<close>

text \<open>
  The program (\<^verbatim>\<open>src/plot.py\<close>) is a dashboard script. Its two functions with logic
  are \<^verbatim>\<open>load_data\<close> (lines 8-13) and \<^verbatim>\<open>preprocess_data\<close> (lines 15-37); both work on
  pandas DataFrames.

  A cell of a DataFrame is a Python string, a number or the missing value \<^verbatim>\<open>NaN\<close>; a
  cell written by line 29 can also be a list of country codes (\<open>Codes\<close>).
  Numbers are kept abstract (type \<open>'n\<close>): floating point is not modelled, and pandas'
  storage types (int64, float64, object) are not modelled either.
\<close>

datatype 'n cell = Str string | Num 'n | NaN | Codes "string list"

text \<open>
  A row is the list of its (column label, cell) pairs in column order; a DataFrame is its
  list of column labels (\<^verbatim>\<open>df.columns\<close>) and its rows in index order. Column labels are
  strings. The row index is not modelled: the frames read by \<^verbatim>\<open>read_excel\<close> have the
  unique default index, under which the index-aligned assignment of line 35 is positional.
\<close>

type_synonym 'n row = "(string \<times> 'n cell) list"

record 'n frame =
  columns :: "string list"
  rows :: "'n row list"

text \<open>A frame is rectangular when every row has exactly the frame's columns.\<close>

definition rectangular :: "'n frame \<Rightarrow> bool" where
  "rectangular df = list_all (\<lambda>r. map fst r = columns df) (rows df)"

text \<open>
  The exceptions the two functions can raise. \<open>RegexError\<close> stands for an exception raised
  inside the country library while it matches a name (such as Python's \<^verbatim>\<open>re.error\<close>), and
  \<open>BadFile\<close> for the exception of \<^verbatim>\<open>pd.ExcelFile\<close> on a file that is no workbook.
\<close>

datatype error = IndexError | KeyError | ValueError | BadFile | RegexError

definition ebind :: "error + 'a \<Rightarrow> ('a \<Rightarrow> error + 'b) \<Rightarrow> error + 'b" where
  "ebind m f = (case m of Inl e \<Rightarrow> Inl e | Inr x \<Rightarrow> f x)"

section \<open>Library functions used by the program\<close>

text \<open>
  Four leaf functions of the libraries are parameters of the model:
  \<^item> \<open>iso3_match\<close>: the name matching of \<^verbatim>\<open>country_converter\<close> against its table of
    countries, giving the ISO3 codes of all the entries that match a name (none, one or
    several), or the exception the library raises on that name, if it raises;
  \<^item> \<open>parse_numeric\<close>: the parser of \<^verbatim>\<open>pandas.to_numeric\<close> on one string, giving
    nothing when the string is not a number;
  \<^item> \<open>str_numeric\<close>: Python's \<^verbatim>\<open>str()\<close> on a number;
  \<^item> \<open>str_codes\<close>: Python's \<^verbatim>\<open>str()\<close> on a list of strings.
\<close>

record 'n library =
  iso3_match :: "string \<Rightarrow> error + string list"
  parse_numeric :: "string \<Rightarrow> 'n option"
  str_numeric :: "'n \<Rightarrow> string"
  str_codes :: "string list \<Rightarrow> string"

text \<open>Python's \<^verbatim>\<open>str()\<close> on a cell.\<close>

fun py_str :: "'n library \<Rightarrow> 'n cell \<Rightarrow> string" where
  "py_str L (Str s) = s"
| "py_str L (Num x) = str_numeric L x"
| "py_str L NaN = ''nan''"
| "py_str L (Codes cs) = str_codes L cs"

text \<open>The value of a row under a column label; a label the row lacks reads as missing.\<close>

definition cell_of :: "'n row \<Rightarrow> string \<Rightarrow> 'n cell" where
  "cell_of r name = (case map_of r name of Some c \<Rightarrow> c | None \<Rightarrow> NaN)"

text \<open>\<^verbatim>\<open>df.columns[i]\<close>\<close>

definition column_label :: "'n frame \<Rightarrow> nat \<Rightarrow> error + string" where
  "column_label df i = (if i < length (columns df) then Inr (columns df ! i) else Inl IndexError)"

text \<open>\<^verbatim>\<open>df[name]\<close>: the column as a list of cells, \<^verbatim>\<open>KeyError\<close> when there is no such column.\<close>

definition getitem :: "'n frame \<Rightarrow> string \<Rightarrow> error + 'n cell list" where
  "getitem df name =
     (if name \<in> set (columns df) then Inr (map (\<lambda>r. cell_of r name) (rows df))
      else Inl KeyError)"

text \<open>
  \<^verbatim>\<open>df[name] = vals\<close>: replaces the column when it exists and appends it otherwise;
  \<^verbatim>\<open>ValueError\<close> when the lengths differ. In the program the frame assigned to is
  always a fresh object, so the assignment is modelled as returning the new frame.
\<close>

definition setitem :: "'n frame \<Rightarrow> string \<Rightarrow> 'n cell list \<Rightarrow> error + 'n frame" where
  "setitem df name vals =
     (if length vals \<noteq> length (rows df) then Inl ValueError
      else Inr \<lparr>columns = (if name \<in> set (columns df) then columns df else columns df @ [name]),
                rows = map (\<lambda>(r, v). AList.update name v r) (zip (rows df) vals)\<rparr>)"

text \<open>
  The right-hand side of an assignment \<^verbatim>\<open>df[name] = v\<close> is a single cell value, which
  pandas writes to every row, or a list, which is assigned as the column and must have
  as many items as the frame has rows.
\<close>

datatype 'n pyvalue = Scalar "'n cell" | Values "'n cell list"

definition setitem_value :: "'n frame \<Rightarrow> string \<Rightarrow> 'n pyvalue \<Rightarrow> error + 'n frame" where
  "setitem_value df name v =
     (case v of Scalar c \<Rightarrow> setitem df name (replicate (length (rows df)) c)
              | Values vals \<Rightarrow> setitem df name vals)"

text \<open>\<^verbatim>\<open>df.rename(columns={old: new})\<close>: a new frame with every label \<open>old\<close> replaced.\<close>

definition rename :: "'n frame \<Rightarrow> string \<Rightarrow> string \<Rightarrow> 'n frame" where
  "rename df old new =
     \<lparr>columns = map (\<lambda>c. if c = old then new else c) (columns df),
      rows = map (map (\<lambda>(k, v). (if k = old then new else k, v))) (rows df)\<rparr>"

text \<open>
  \<^verbatim>\<open>df.melt(id_vars=['Country'], var_name='Month', value_name='Value')\<close>: one record per
  value column and input row, value column by value column; the value columns are all
  columns that are not id columns. pandas (from version 2.0 on) raises \<^verbatim>\<open>ValueError\<close> when
  \<^verbatim>\<open>value_name\<close> is already a column label, and \<^verbatim>\<open>KeyError\<close> when an id column is absent.
\<close>

definition value_vars :: "'n frame \<Rightarrow> string list" where
  "value_vars df = filter (\<lambda>c. c \<noteq> ''Country'') (columns df)"

definition melt_record :: "string \<Rightarrow> 'n row \<Rightarrow> 'n row" where
  "melt_record v r =
     [(''Country'', cell_of r ''Country''), (''Month'', Str v), (''Value'', cell_of r v)]"

definition melt_rows :: "'n frame \<Rightarrow> 'n row list" where
  "melt_rows df = concat (map (\<lambda>v. map (melt_record v) (rows df)) (value_vars df))"

definition melt :: "'n frame \<Rightarrow> error + 'n frame" where
  "melt df =
     (if ''Value'' \<in> set (columns df) then Inl ValueError
      else if ''Country'' \<notin> set (columns df) then Inl KeyError
      else Inr \<lparr>columns = [''Country'', ''Month'', ''Value''], rows = melt_rows df\<rparr>)"

text \<open>\<^verbatim>\<open>series.isin(labels)\<close>: exact equality with one of the strings.\<close>

definition isin :: "'n cell list \<Rightarrow> string list \<Rightarrow> bool list" where
  "isin col labels = map (\<lambda>c. c \<in> set (map Str labels)) col"

text \<open>\<^verbatim>\<open>df[mask]\<close>: the rows where the mask is true; \<^verbatim>\<open>ValueError\<close> on a length mismatch.\<close>

definition select :: "'n frame \<Rightarrow> bool list \<Rightarrow> error + 'n frame" where
  "select df keep =
     (if length keep \<noteq> length (rows df) then Inl ValueError
      else Inr \<lparr>columns = columns df, rows = map snd (filter fst (zip keep (rows df)))\<rparr>)"

text \<open>
  \<^verbatim>\<open>cc.convert(names, to='ISO3')\<close>. The library turns every name into a string with
  \<^verbatim>\<open>str()\<close> and collects the codes of the entries that match it. The item for the name is
  \<^item> the value of the parameter \<^verbatim>\<open>not_found\<close> when nothing matches; line 29 does not pass
    \<^verbatim>\<open>not_found\<close>, and its default is the string \<^verbatim>\<open>'not found'\<close>, not a missing value;
  \<^item> the code when one entry matches;
  \<^item> the list of the codes when several entries match.

  For exactly one name \<^verbatim>\<open>convert\<close> returns the item itself, a string or a list of codes,
  and otherwise the list of the items. An exception of the matching on one of the names
  ends the call.
\<close>

definition item_of_codes :: "string list \<Rightarrow> 'n cell" where
  "item_of_codes codes =
     (case codes of
        [] \<Rightarrow> Str ''not found''
      | code # others \<Rightarrow> if others = [] then Str code else Codes (code # others))"

definition convert_name :: "'n library \<Rightarrow> 'n cell \<Rightarrow> error + 'n cell" where
  "convert_name L n = ebind (iso3_match L (py_str L n)) (\<lambda>codes. Inr (item_of_codes codes))"

fun convert_names :: "'n library \<Rightarrow> 'n cell list \<Rightarrow> error + 'n cell list" where
  "convert_names L [] = Inr []"
| "convert_names L (n # names) =
     ebind (convert_name L n) (\<lambda>item.
     ebind (convert_names L names) (\<lambda>items.
     Inr (item # items)))"

definition convert :: "'n library \<Rightarrow> 'n cell list \<Rightarrow> error + 'n pyvalue" where
  "convert L names =
     ebind (convert_names L names) (\<lambda>outlist.
     Inr (if length outlist = 1
          then (case hd outlist of Codes codes \<Rightarrow> Values (map Str codes) | item \<Rightarrow> Scalar item)
          else Values outlist))"

text \<open>\<^verbatim>\<open>df.dropna(subset=[name])\<close>: the rows whose cell under \<open>name\<close> is not missing.\<close>

definition dropna :: "'n frame \<Rightarrow> string \<Rightarrow> error + 'n frame" where
  "dropna df name = ebind (getitem df name) (\<lambda>col. select df (map (\<lambda>c. c \<noteq> NaN) col))"

text \<open>\<^verbatim>\<open>series.astype(str)\<close>, \<^verbatim>\<open>.str.replace(',', '')\<close> and
  \<^verbatim>\<open>pd.to_numeric(..., errors='coerce')\<close>.\<close>

definition astype_str :: "'n library \<Rightarrow> 'n cell list \<Rightarrow> string list" where
  "astype_str L col = map (py_str L) col"

definition str_replace_comma :: "string list \<Rightarrow> string list" where
  "str_replace_comma col = map (filter (\<lambda>c. c \<noteq> CHR '','')) col"

definition to_numeric :: "'n library \<Rightarrow> string list \<Rightarrow> 'n cell list" where
  "to_numeric L col = map (\<lambda>s. case parse_numeric L s of Some x \<Rightarrow> Num x | None \<Rightarrow> NaN) col"

section \<open>The Shaper: \<^verbatim>\<open>preprocess_data\<close>\<close>

text \<open>Lines 17-21: the reshape.\<close>

definition reshape :: "'n frame \<Rightarrow> error + 'n frame" where
  "reshape df =
     (if length (columns df) > 2 then melt df
      else ebind (column_label df 1) (\<lambda>c1.
           let df_melted = rename df c1 ''Value''
           in setitem df_melted ''Month'' (replicate (length (rows df_melted)) (Str c1))))"

text \<open>
  Lines 23-25 (``Separate global and international data''): the pair
  \<^verbatim>\<open>(global_data, df_melted)\<close> after line 25.
\<close>

definition split_aggregates :: "'n frame \<Rightarrow> error + ('n frame \<times> 'n frame)" where
  "split_aggregates df_melted =
     ebind (getitem df_melted ''Country'') (\<lambda>country.
     ebind (select df_melted (isin country [''International'', ''Global''])) (\<lambda>global_data.
     ebind (getitem df_melted ''Country'') (\<lambda>country.
     ebind (select df_melted (map Not (isin country [''International'', ''Global'']))) (\<lambda>df_melted.
     Inr (global_data, df_melted)))))"

text \<open>
  Lines 27-29 (``Convert country names to ISO3 codes''). The call of \<^verbatim>\<open>convert\<close> can raise,
  and the assignment raises \<^verbatim>\<open>ValueError\<close> when \<^verbatim>\<open>convert\<close> returns a list whose length is not
  the number of rows: that is the list of codes returned for a single name that matches
  several entries.
\<close>

definition add_iso3 :: "'n library \<Rightarrow> 'n frame \<Rightarrow> error + 'n frame" where
  "add_iso3 L df_melted =
     ebind (getitem df_melted ''Country'') (\<lambda>country.
     ebind (convert L country) (\<lambda>codes.
     setitem_value df_melted ''iso3'' codes))"

text \<open>Lines 34-35 (``Ensure 'Value' column is numeric'').\<close>

definition coerce_values :: "'n library \<Rightarrow> 'n frame \<Rightarrow> error + 'n frame" where
  "coerce_values L df_melted =
     ebind (getitem df_melted ''Value'') (\<lambda>val.
     setitem df_melted ''Value'' (to_numeric L (str_replace_comma (astype_str L val))))"

text \<open>
  Lines 15-37, with line 32 (``Remove rows where ISO3 conversion failed'') between the
  two steps above. The result is the pair \<^verbatim>\<open>(df_melted, global_data)\<close> of line 37.
\<close>

definition preprocess_data :: "'n library \<Rightarrow> 'n frame \<Rightarrow> error + ('n frame \<times> 'n frame)" where
  "preprocess_data L df =
     ebind (reshape df) (\<lambda>df_melted.
     ebind (split_aggregates df_melted) (\<lambda>(global_data, df_melted).
     ebind (add_iso3 L df_melted) (\<lambda>df_melted.
     ebind (dropna df_melted ''iso3'') (\<lambda>df_melted.
     ebind (coerce_values L df_melted) (\<lambda>df_melted.
     Inr (df_melted, global_data))))))"

section \<open>The Loader: \<^verbatim>\<open>load_data\<close>\<close>

text \<open>
  An uploaded file either does not parse as a workbook or is a workbook: its sheets by
  name, each given as the frame \<^verbatim>\<open>read_excel\<close> parses it to. \<^verbatim>\<open>pd.ExcelFile\<close> raises on a
  file that is no workbook, and \<^verbatim>\<open>pd.read_excel(xlsx, name)\<close> raises \<^verbatim>\<open>ValueError\<close> when
  the workbook has no sheet of that name. The decorator \<^verbatim>\<open>st.cache_data\<close> only memoizes
  the result by argument and is not modelled.
\<close>

datatype 'n upload = Unreadable | Workbook "(string \<times> 'n frame) list"

definition ExcelFile :: "'n upload \<Rightarrow> error + (string \<times> 'n frame) list" where
  "ExcelFile file = (case file of Unreadable \<Rightarrow> Inl BadFile | Workbook sheets \<Rightarrow> Inr sheets)"

definition read_excel :: "(string \<times> 'n frame) list \<Rightarrow> string \<Rightarrow> error + 'n frame" where
  "read_excel xlsx sheet_name =
     (case map_of xlsx sheet_name of None \<Rightarrow> Inl ValueError | Some df \<Rightarrow> Inr df)"

definition load_data :: "'n upload \<Rightarrow> error + ('n frame \<times> 'n frame)" where
  "load_data file =
     ebind (ExcelFile file) (\<lambda>xlsx.
     ebind (read_excel xlsx ''MAU Signals'') (\<lambda>signals_df.
     ebind (read_excel xlsx ''MAU Devices'') (\<lambda>devices_df.
     Inr (signals_df, devices_df))))"

section \<open>The Shaper on a store of mutable frames\<close>

text \<open>
  The functions above are pure: they return new frames. In the program DataFrames are
  mutable objects, and lines 21, 29 and 35 assign to a column of an existing object. To
  state that the argument of \<^verbatim>\<open>preprocess_data\<close> is not changed, the same code is
  modelled once more over a store of frames. A program takes the store and returns an
  error, or a result and the new store. In pandas \<^verbatim>\<open>rename\<close>, \<^verbatim>\<open>melt\<close>, \<^verbatim>\<open>df[mask]\<close> and
  \<^verbatim>\<open>dropna\<close> return a new object, and \<^verbatim>\<open>df[name] = vals\<close> changes the object \<open>df\<close> refers
  to.
\<close>

record 'n store =
  frames :: "nat \<Rightarrow> 'n frame"
  next_id :: nat

type_synonym ('n, 'a) prog = "'n store \<Rightarrow> error + ('a \<times> 'n store)"

definition sbind :: "('n, 'a) prog \<Rightarrow> ('a \<Rightarrow> ('n, 'b) prog) \<Rightarrow> ('n, 'b) prog" where
  "sbind p f s = (case p s of Inl e \<Rightarrow> Inl e | Inr (x, s') \<Rightarrow> f x s')"

definition sreturn :: "'a \<Rightarrow> ('n, 'a) prog" where
  "sreturn x s = Inr (x, s)"

definition lift :: "error + 'a \<Rightarrow> ('n, 'a) prog" where
  "lift r s = (case r of Inl e \<Rightarrow> Inl e | Inr x \<Rightarrow> Inr (x, s))"

definition new_frame :: "'n frame \<Rightarrow> ('n, nat) prog" where
  "new_frame f s =
     Inr (next_id s, \<lparr>frames = (frames s)(next_id s := f), next_id = Suc (next_id s)\<rparr>)"

definition read_frame :: "nat \<Rightarrow> ('n, 'n frame) prog" where
  "read_frame p s = Inr (frames s p, s)"

definition write_frame :: "nat \<Rightarrow> 'n frame \<Rightarrow> ('n, unit) prog" where
  "write_frame p f s = Inr ((), \<lparr>frames = (frames s)(p := f), next_id = next_id s\<rparr>)"

definition getitem_at :: "nat \<Rightarrow> string \<Rightarrow> ('n, 'n cell list) prog" where
  "getitem_at p name = sbind (read_frame p) (\<lambda>f. lift (getitem f name))"

definition setitem_at :: "nat \<Rightarrow> string \<Rightarrow> 'n cell list \<Rightarrow> ('n, unit) prog" where
  "setitem_at p name vals =
     sbind (read_frame p) (\<lambda>f. sbind (lift (setitem f name vals)) (write_frame p))"

definition setitem_value_at :: "nat \<Rightarrow> string \<Rightarrow> 'n pyvalue \<Rightarrow> ('n, unit) prog" where
  "setitem_value_at p name v =
     sbind (read_frame p) (\<lambda>f. sbind (lift (setitem_value f name v)) (write_frame p))"

definition rename_at :: "nat \<Rightarrow> string \<Rightarrow> string \<Rightarrow> ('n, nat) prog" where
  "rename_at p old new = sbind (read_frame p) (\<lambda>f. new_frame (rename f old new))"

definition melt_at :: "nat \<Rightarrow> ('n, nat) prog" where
  "melt_at p = sbind (read_frame p) (\<lambda>f. sbind (lift (melt f)) new_frame)"

definition select_at :: "nat \<Rightarrow> bool list \<Rightarrow> ('n, nat) prog" where
  "select_at p keep = sbind (read_frame p) (\<lambda>f. sbind (lift (select f keep)) new_frame)"

definition dropna_at :: "nat \<Rightarrow> string \<Rightarrow> ('n, nat) prog" where
  "dropna_at p name = sbind (read_frame p) (\<lambda>f. sbind (lift (dropna f name)) new_frame)"

text \<open>Lines 17-21, 23-25, 27-29, 34-35 and the whole function, on references.\<close>

definition reshape_at :: "nat \<Rightarrow> ('n, nat) prog" where
  "reshape_at df =
     sbind (read_frame df) (\<lambda>f.
     if length (columns f) > 2 then melt_at df
     else sbind (lift (column_label f 1)) (\<lambda>c1.
          sbind (rename_at df c1 ''Value'') (\<lambda>df_melted.
          sbind (read_frame df_melted) (\<lambda>fm.
          sbind (setitem_at df_melted ''Month'' (replicate (length (rows fm)) (Str c1))) (\<lambda>_.
          sreturn df_melted)))))"

definition split_aggregates_at :: "nat \<Rightarrow> ('n, nat \<times> nat) prog" where
  "split_aggregates_at df_melted =
     sbind (getitem_at df_melted ''Country'') (\<lambda>country.
     sbind (select_at df_melted (isin country [''International'', ''Global''])) (\<lambda>global_data.
     sbind (getitem_at df_melted ''Country'') (\<lambda>country.
     sbind (select_at df_melted (map Not (isin country [''International'', ''Global'']))) (\<lambda>df_melted.
     sreturn (global_data, df_melted)))))"

definition add_iso3_at :: "'n library \<Rightarrow> nat \<Rightarrow> ('n, unit) prog" where
  "add_iso3_at L df_melted =
     sbind (getitem_at df_melted ''Country'') (\<lambda>country.
     sbind (lift (convert L country)) (\<lambda>codes.
     setitem_value_at df_melted ''iso3'' codes))"

definition coerce_values_at :: "'n library \<Rightarrow> nat \<Rightarrow> ('n, unit) prog" where
  "coerce_values_at L df_melted =
     sbind (getitem_at df_melted ''Value'') (\<lambda>val.
     setitem_at df_melted ''Value'' (to_numeric L (str_replace_comma (astype_str L val))))"

definition preprocess_data_st :: "'n library \<Rightarrow> nat \<Rightarrow> ('n, nat \<times> nat) prog" where
  "preprocess_data_st L df =
     sbind (reshape_at df) (\<lambda>df_melted.
     sbind (split_aggregates_at df_melted) (\<lambda>(global_data, df_melted).
     sbind (add_iso3_at L df_melted) (\<lambda>_.
     sbind (dropna_at df_melted ''iso3'') (\<lambda>df_melted.
     sbind (coerce_values_at L df_melted) (\<lambda>_.
     sreturn (df_melted, global_data))))))"

section \<open>A concrete library for evaluation\<close>

text \<open>
  To evaluate the program on concrete sheets, the three library parameters are
  instantiated: numbers are integers, the name table has a few entries (one name
  matches two countries, and the matching raises on one name), the parser reads unsigned
  decimal numerals, and \<^verbatim>\<open>str()\<close> writes decimal numerals and lists of strings that have no
  quote in them.
\<close>

definition example_match :: "string \<Rightarrow> error + string list" where
  "example_match name =
     (if name = ''a('' then Inl RegexError
      else case map_of [(''USA'', [''USA'']), (''United States'', [''USA'']),
                        (''Germany'', [''DEU'']), (''France'', [''FRA'']),
                        (''United States and Canada'', [''USA'', ''CAN''])] name of
             Some codes \<Rightarrow> Inr codes
           | None \<Rightarrow> Inr [])"

definition digit_of :: "char \<Rightarrow> nat option" where
  "digit_of c = (let k = of_char c :: nat in if 48 \<le> k \<and> k \<le> 57 then Some (k - 48) else None)"

fun parse_digits :: "nat \<Rightarrow> string \<Rightarrow> nat option" where
  "parse_digits acc [] = Some acc"
| "parse_digits acc (c # cs) =
     (case digit_of c of None \<Rightarrow> None | Some d \<Rightarrow> parse_digits (10 * acc + d) cs)"

definition parse_decimal :: "string \<Rightarrow> int option" where
  "parse_decimal s = (if s = [] then None else map_option int (parse_digits 0 s))"

fun show_nat :: "nat \<Rightarrow> string" where
  "show_nat n =
     (if n < 10 then [char_of (48 + n)] else show_nat (n div 10) @ [char_of (48 + n mod 10)])"

declare show_nat.simps [simp del]

definition show_int :: "int \<Rightarrow> string" where
  "show_int i = (if i < 0 then CHR ''-'' # show_nat (nat (- i)) else show_nat (nat i))"

fun show_items :: "string list \<Rightarrow> string" where
  "show_items [] = []"
| "show_items [c] = [CHR 0x27] @ c @ [CHR 0x27]"
| "show_items (c # cs) = [CHR 0x27] @ c @ [CHR 0x27] @ '', '' @ show_items cs"

definition show_codes :: "string list \<Rightarrow> string" where
  "show_codes cs = ''['' @ show_items cs @ '']''"

definition example_library :: "int library" where
  "example_library =
     \<lparr>iso3_match = example_match, parse_numeric = parse_decimal, str_numeric = show_int,
      str_codes = show_codes\<rparr>"

section \<open>Example sheets\<close>

text \<open>
  Two sheets and the frames the program computes from them under the concrete library,
  step by step. \<open>sheet_jan_feb\<close> is the three-column example of the specification.
\<close>

definition sheet_march :: "int frame" where
  "sheet_march =
     \<lparr>columns = [''Country'', ''March''],
      rows = [[(''Country'', Str ''USA''), (''March'', Str ''1,234'')],
              [(''Country'', Str ''Global''), (''March'', Str ''5,000'')],
              [(''Country'', Str ''global''), (''March'', Str ''n/a'')]]\<rparr>"

definition sheet_march_reshaped :: "int frame" where
  "sheet_march_reshaped =
     \<lparr>columns = [''Country'', ''Value'', ''Month''],
      rows = [[(''Country'', Str ''USA''), (''Value'', Str ''1,234''), (''Month'', Str ''March'')],
              [(''Country'', Str ''Global''), (''Value'', Str ''5,000''), (''Month'', Str ''March'')],
              [(''Country'', Str ''global''), (''Value'', Str ''n/a''), (''Month'', Str ''March'')]]\<rparr>"

definition sheet_march_aggregates :: "int frame" where
  "sheet_march_aggregates =
     \<lparr>columns = [''Country'', ''Value'', ''Month''],
      rows = [[(''Country'', Str ''Global''), (''Value'', Str ''5,000''), (''Month'', Str ''March'')]]\<rparr>"

definition sheet_march_others :: "int frame" where
  "sheet_march_others =
     \<lparr>columns = [''Country'', ''Value'', ''Month''],
      rows = [[(''Country'', Str ''USA''), (''Value'', Str ''1,234''), (''Month'', Str ''March'')],
              [(''Country'', Str ''global''), (''Value'', Str ''n/a''), (''Month'', Str ''March'')]]\<rparr>"

definition sheet_march_resolved :: "int frame" where
  "sheet_march_resolved =
     \<lparr>columns = [''Country'', ''Value'', ''Month'', ''iso3''],
      rows = [[(''Country'', Str ''USA''), (''Value'', Str ''1,234''), (''Month'', Str ''March''),
               (''iso3'', Str ''USA'')],
              [(''Country'', Str ''global''), (''Value'', Str ''n/a''), (''Month'', Str ''March''),
               (''iso3'', Str ''not found'')]]\<rparr>"

definition sheet_march_countries :: "int frame" where
  "sheet_march_countries =
     \<lparr>columns = [''Country'', ''Value'', ''Month'', ''iso3''],
      rows = [[(''Country'', Str ''USA''), (''Value'', Num 1234), (''Month'', Str ''March''),
               (''iso3'', Str ''USA'')],
              [(''Country'', Str ''global''), (''Value'', NaN), (''Month'', Str ''March''),
               (''iso3'', Str ''not found'')]]\<rparr>"

definition sheet_jan_feb :: "int frame" where
  "sheet_jan_feb =
     \<lparr>columns = [''Country'', ''Jan'', ''Feb''],
      rows = [[(''Country'', Str ''USA''), (''Jan'', Str ''1,000''), (''Feb'', Str ''1,100'')],
              [(''Country'', Str ''Global''), (''Jan'', Str ''5,000''), (''Feb'', Str ''5,200'')]]\<rparr>"

definition sheet_jan_feb_countries :: "int frame" where
  "sheet_jan_feb_countries =
     \<lparr>columns = [''Country'', ''Month'', ''Value'', ''iso3''],
      rows = [[(''Country'', Str ''USA''), (''Month'', Str ''Jan''), (''Value'', Num 1000),
               (''iso3'', Str ''USA'')],
              [(''Country'', Str ''USA''), (''Month'', Str ''Feb''), (''Value'', Num 1100),
               (''iso3'', Str ''USA'')]]\<rparr>"

definition sheet_jan_feb_aggregates :: "int frame" where
  "sheet_jan_feb_aggregates =
     \<lparr>columns = [''Country'', ''Month'', ''Value''],
      rows = [[(''Country'', Str ''Global''), (''Month'', Str ''Jan''), (''Value'', Str ''5,000'')],
              [(''Country'', Str ''Global''), (''Month'', Str ''Feb''), (''Value'', Str ''5,200'')]]\<rparr>"

definition sheet_ambiguous :: "int frame" where
  "sheet_ambiguous =
     \<lparr>columns = [''Country'', ''March''],
      rows = [[(''Country'', Str ''United States and Canada''), (''March'', Str ''5'')],
              [(''Country'', Str ''Global''), (''March'', Str ''6'')]]\<rparr>"

definition store_with_sheet_march :: "int store" where
  "store_with_sheet_march =
     \<lparr>frames = (\<lambda>_. \<lparr>columns = [], rows = []\<rparr>)(0 := sheet_march), next_id = 1\<rparr>"

definition store_after_run :: "int store" where
  "store_after_run =
     \<lparr>frames = (frames store_with_sheet_march)
                 (1 := sheet_march_reshaped, 2 := sheet_march_aggregates,
                  3 := sheet_march_resolved, 4 := sheet_march_countries),
      next_id = 5\<rparr>"

section \<open>Row-level vocabulary\<close>

text \<open>The test of lines 24-25 on one row: the Country cell is one of the two reserved labels.\<close>

definition is_aggregate :: "'n row \<Rightarrow> bool" where
  "is_aggregate r =
     (cell_of r ''Country'' = Str ''International'' \<or> cell_of r ''Country'' = Str ''Global'')"

text \<open>
  The codes matched for the Country of one row, and the cell that line 29 writes under
  \<^verbatim>\<open>iso3\<close> for the row (when the matching does not raise on it).
\<close>

definition matched_codes :: "'n library \<Rightarrow> 'n row \<Rightarrow> string list" where
  "matched_codes L r =
     (case iso3_match L (py_str L (cell_of r ''Country'')) of Inr codes \<Rightarrow> codes | Inl e \<Rightarrow> [])"

definition iso3_code :: "'n library \<Rightarrow> 'n row \<Rightarrow> 'n cell" where
  "iso3_code L r = item_of_codes (matched_codes L r)"

text \<open>The frame has exactly one row, and the Country of that row matches several entries.\<close>

definition several_codes_single_row :: "'n library \<Rightarrow> 'n frame \<Rightarrow> bool" where
  "several_codes_single_row L d =
     (length (rows d) = 1 \<and> 2 \<le> length (matched_codes L (hd (rows d))))"

text \<open>
  The exception that lines 28-29 raise on a frame that has a Country column, if any: the
  exception of the matching on the first name that has one; otherwise \<^verbatim>\<open>ValueError\<close> when
  the frame has exactly one row and the Country of that row matches several entries.
\<close>

definition resolution_error :: "'n library \<Rightarrow> 'n frame \<Rightarrow> error option" where
  "resolution_error L d =
     (case convert_names L (map (\<lambda>r. cell_of r ''Country'') (rows d)) of
        Inl e \<Rightarrow> Some e
      | Inr items \<Rightarrow> if several_codes_single_row L d then Some ValueError else None)"

text \<open>
  The cell that line 35 computes from one cell: \<^verbatim>\<open>str()\<close>, commas removed, parsed,
  missing when the parse fails.
\<close>

definition coerce :: "'n library \<Rightarrow> 'n cell \<Rightarrow> 'n cell" where
  "coerce L c =
     (case parse_numeric L (filter (\<lambda>ch. ch \<noteq> CHR '','') (py_str L c)) of Some x \<Rightarrow> Num x
                                                                          | None \<Rightarrow> NaN)"

text \<open>The relabelling of line 20 on one row.\<close>

definition rename_row :: "string \<Rightarrow> string \<Rightarrow> 'n row \<Rightarrow> 'n row" where
  "rename_row old new r = map (\<lambda>(k, v). (if k = old then new else k, v)) r"

text \<open>Lines 29 and 35 on one row.\<close>

definition country_record :: "'n library \<Rightarrow> 'n row \<Rightarrow> 'n row" where
  "country_record L r =
     AList.update ''Value'' (coerce L (cell_of r ''Value''))
       (AList.update ''iso3'' (iso3_code L r) r)"


section \<open>Each step as a function of the rows\<close>

lemma filter_zip_map: "map snd (filter fst (zip (map P xs) xs)) = filter P xs"
  by (induction xs) auto

lemma zip_map_self: "map (\<lambda>(r, v). f r v) (zip xs (map g xs)) = map (\<lambda>r. f r (g r)) xs"
  by (induction xs) auto

lemma cell_of_update_same: "cell_of (AList.update k v r) k = v"
  by (simp add: cell_of_def update_conv')

lemma cell_of_update_other: "k' \<noteq> k \<Longrightarrow> cell_of (AList.update k v r) k' = cell_of r k'"
  by (simp add: cell_of_def update_conv')

lemma select_map: "select df (map P (rows df)) = Inr \<lparr>columns = columns df, rows = filter P (rows df)\<rparr>"
  by (simp add: select_def filter_zip_map)

lemma split_aggregates_eq:
  "split_aggregates m =
     (if ''Country'' \<in> set (columns m)
      then Inr (\<lparr>columns = columns m, rows = filter is_aggregate (rows m)\<rparr>,
                \<lparr>columns = columns m, rows = filter (\<lambda>r. \<not> is_aggregate r) (rows m)\<rparr>)
      else Inl KeyError)"
proof (cases "''Country'' \<in> set (columns m)")
  case True
  have a: "isin (map (\<lambda>r. cell_of r ''Country'') (rows m)) [''International'', ''Global'']
           = map is_aggregate (rows m)"
    by (auto simp add: isin_def is_aggregate_def)
  have b: "map Not (map is_aggregate (rows m)) = map (\<lambda>r. \<not> is_aggregate r) (rows m)"
    by simp
  from True show ?thesis
    by (simp add: split_aggregates_def getitem_def ebind_def a b select_map del: map_map)
next
  case False
  then show ?thesis
    by (simp add: split_aggregates_def getitem_def ebind_def)
qed

lemma convert_names_Inr:
  "convert_names L names = Inr items \<Longrightarrow>
   items = map (\<lambda>n. item_of_codes (case iso3_match L (py_str L n) of Inr codes \<Rightarrow> codes
                                                                     | Inl e \<Rightarrow> [])) names"
  by (induction names arbitrary: items)
     (auto simp add: convert_name_def ebind_def split: sum.splits)



lemma item_of_codes_not_missing: "item_of_codes codes \<noteq> NaN"
  by (simp add: item_of_codes_def split: list.split)

lemma iso3_code_not_missing: "iso3_code L r \<noteq> NaN"
  by (simp add: iso3_code_def item_of_codes_not_missing)

lemma setitem_single_item:
  assumes "rows d = [r]"
  shows "setitem_value d ''iso3''
     (case item_of_codes codes of Codes cs \<Rightarrow> Values (map Str cs) | item \<Rightarrow> Scalar item) =
     (if 2 \<le> length codes then Inl ValueError
      else Inr \<lparr>columns = (if ''iso3'' \<in> set (columns d) then columns d else columns d @ [''iso3'']),
                rows = [AList.update ''iso3'' (item_of_codes codes) r]\<rparr>)"
proof (cases codes)
  case Nil
  then show ?thesis
    using assms by (simp add: item_of_codes_def setitem_value_def setitem_def)
next
  case (Cons code others)
  then show ?thesis
    using assms by (cases others) (simp_all add: item_of_codes_def setitem_value_def setitem_def)
qed

lemma add_iso3_eq:
  "add_iso3 L d =
     (if ''Country'' \<notin> set (columns d) then Inl KeyError
      else case resolution_error L d of
             Some e \<Rightarrow> Inl e
           | None \<Rightarrow>
               Inr \<lparr>columns = (if ''iso3'' \<in> set (columns d) then columns d
                               else columns d @ [''iso3'']),
                    rows = map (\<lambda>r. AList.update ''iso3'' (iso3_code L r) r) (rows d)\<rparr>)"
proof (cases "''Country'' \<in> set (columns d)")
  case False
  then show ?thesis
    by (simp add: add_iso3_def getitem_def ebind_def)
next
  case True
  let ?names = "map (\<lambda>r. cell_of r ''Country'') (rows d)"
  have start: "add_iso3 L d = ebind (convert L ?names) (setitem_value d ''iso3'')"
    using True by (simp add: add_iso3_def getitem_def ebind_def)
  show ?thesis
  proof (cases "convert_names L ?names")
    case (Inl e)
    with True show ?thesis
      by (simp add: start convert_def ebind_def resolution_error_def)
  next
    case (Inr items)
    from convert_names_Inr [OF Inr] have items: "items = map (iso3_code L) (rows d)"
      by (simp add: iso3_code_def matched_codes_def o_def)
    have conv: "convert L ?names =
        Inr (if length items = 1
             then (case hd items of Codes codes \<Rightarrow> Values (map Str codes) | item \<Rightarrow> Scalar item)
             else Values items)"
      by (simp only: convert_def Inr ebind_def sum.case)
    have re: "resolution_error L d = (if several_codes_single_row L d then Some ValueError else None)"
      by (simp only: resolution_error_def Inr sum.case)
    show ?thesis
    proof (cases "length (rows d) = 1")
      case single: True
      then obtain r where r: "rows d = [r]"
        by (cases "rows d") simp_all
      have "add_iso3 L d = setitem_value d ''iso3''
          (case item_of_codes (matched_codes L r) of Codes cs \<Rightarrow> Values (map Str cs)
                                                   | item \<Rightarrow> Scalar item)"
        unfolding start conv by (simp add: ebind_def items r iso3_code_def)
      with True show ?thesis
        by (simp add: setitem_single_item [OF r] re several_codes_single_row_def r iso3_code_def)
    next
      case several: False
      then have "add_iso3 L d = setitem_value d ''iso3'' (Values (map (iso3_code L) (rows d)))"
        unfolding start conv by (simp add: ebind_def items)
      with True several show ?thesis
        by (simp add: setitem_value_def setitem_def zip_map_self re several_codes_single_row_def)
    qed
  qed
qed

lemma dropna_eq:
  "dropna d name =
     (if name \<in> set (columns d)
      then Inr \<lparr>columns = columns d, rows = filter (\<lambda>r. cell_of r name \<noteq> NaN) (rows d)\<rparr>
      else Inl KeyError)"
proof -
  have a: "map (\<lambda>c. c \<noteq> NaN) (map (\<lambda>r. cell_of r name) (rows d))
           = map (\<lambda>r. cell_of r name \<noteq> NaN) (rows d)"
    by simp
  show ?thesis
    by (simp add: dropna_def getitem_def ebind_def a select_map del: map_map)
qed

lemma dropna_iso3_eq:
  "''iso3'' \<in> set cs \<Longrightarrow>
   dropna \<lparr>columns = cs, rows = map (\<lambda>r. AList.update ''iso3'' (iso3_code L r) r) rs\<rparr> ''iso3''
     = Inr \<lparr>columns = cs, rows = map (\<lambda>r. AList.update ''iso3'' (iso3_code L r) r) rs\<rparr>"
  by (simp add: dropna_eq filter_map o_def cell_of_update_same iso3_code_not_missing)

lemma coerce_values_eq:
  "coerce_values L d =
     (if ''Value'' \<in> set (columns d)
      then Inr \<lparr>columns = columns d,
                rows = map (\<lambda>r. AList.update ''Value'' (coerce L (cell_of r ''Value'')) r) (rows d)\<rparr>
      else Inl KeyError)"
proof -
  have a: "to_numeric L (str_replace_comma (astype_str L (map (\<lambda>r. cell_of r ''Value'') (rows d))))
           = map (\<lambda>r. coerce L (cell_of r ''Value'')) (rows d)"
    by (simp add: to_numeric_def str_replace_comma_def astype_str_def coerce_def o_def)
  show ?thesis
    unfolding coerce_values_def getitem_def ebind_def
    by (simp add: a setitem_def zip_map_self)
qed

lemma reshape_short: "length (columns df) < 2 \<Longrightarrow> reshape df = Inl IndexError"
  by (simp add: reshape_def column_label_def ebind_def)

lemma zip_replicate_self:
  "map (\<lambda>(r, v). f r v) (zip xs (replicate (length xs) c)) = map (\<lambda>r. f r c) xs"
  by (induction xs) auto

lemma rename_two:
  "columns df = [a, b] \<Longrightarrow>
   rename df b ''Value'' =
     \<lparr>columns = [if a = b then ''Value'' else a, ''Value''],
      rows = map (rename_row b ''Value'') (rows df)\<rparr>"
  by (simp add: rename_def rename_row_def)

lemma setitem_scalar:
  "setitem d name (replicate (length (rows d)) c) =
     Inr \<lparr>columns = (if name \<in> set (columns d) then columns d else columns d @ [name]),
          rows = map (AList.update name c) (rows d)\<rparr>"
  by (simp add: setitem_def zip_replicate_self)

lemma reshape_two:
  assumes "columns df = [a, b]"
  shows "reshape df =
     Inr \<lparr>columns = (if ''Month'' \<in> set [if a = b then ''Value'' else a, ''Value'']
                      then [if a = b then ''Value'' else a, ''Value'']
                      else [if a = b then ''Value'' else a, ''Value''] @ [''Month'']),
          rows = map (\<lambda>r. AList.update ''Month'' (Str b) (rename_row b ''Value'' r)) (rows df)\<rparr>"
proof -
  have l: "column_label df (Suc 0) = Inr b"
    using assms by (simp add: column_label_def)
  have "reshape df =
     setitem (rename df b ''Value'') ''Month''
       (replicate (length (rows (rename df b ''Value''))) (Str b))"
    using assms by (simp add: reshape_def l ebind_def Let_def)
  also have "\<dots> = Inr \<lparr>columns = (if ''Month'' \<in> set (columns (rename df b ''Value''))
                      then columns (rename df b ''Value'')
                      else columns (rename df b ''Value'') @ [''Month'']),
          rows = map (AList.update ''Month'' (Str b)) (rows (rename df b ''Value''))\<rparr>"
    by (rule setitem_scalar)
  finally show ?thesis
    by (simp only: rename_two [OF assms] frame.simps map_map o_def)
qed

lemma reshape_wide: "2 < length (columns df) \<Longrightarrow> reshape df = melt df"
  by (simp add: reshape_def)

lemma preprocess_data_after_reshape:
  assumes "reshape df = Inr m"
  shows "preprocess_data L df =
     (if ''Country'' \<notin> set (columns m) then Inl KeyError
      else case resolution_error L
                  \<lparr>columns = columns m, rows = filter (\<lambda>r. \<not> is_aggregate r) (rows m)\<rparr> of
             Some e \<Rightarrow> Inl e
           | None \<Rightarrow>
               if ''Value'' \<notin> set (columns m) then Inl KeyError
               else Inr (\<lparr>columns = (if ''iso3'' \<in> set (columns m) then columns m
                                      else columns m @ [''iso3'']),
                          rows = map (country_record L)
                                   (filter (\<lambda>r. \<not> is_aggregate r) (rows m))\<rparr>,
                         \<lparr>columns = columns m, rows = filter is_aggregate (rows m)\<rparr>))"
proof (cases "''Country'' \<in> set (columns m)")
  case False
  with assms show ?thesis
    by (simp add: preprocess_data_def ebind_def split_aggregates_eq)
next
  case True
  let ?rest = "\<lparr>columns = columns m, rows = filter (\<lambda>r. \<not> is_aggregate r) (rows m)\<rparr>"
  let ?cs = "if ''iso3'' \<in> set (columns m) then columns m else columns m @ [''iso3'']"
  let ?d = "\<lparr>columns = ?cs,
             rows = map (\<lambda>r. AList.update ''iso3'' (iso3_code L r) r) (rows ?rest)\<rparr>"
  have 1: "add_iso3 L ?rest = (case resolution_error L ?rest of Some e \<Rightarrow> Inl e | None \<Rightarrow> Inr ?d)"
    using True by (simp add: add_iso3_eq split: option.split)
  have 2: "dropna ?d ''iso3'' = Inr ?d"
    by (rule dropna_iso3_eq) simp
  have 3: "coerce_values L ?d =
     (if ''Value'' \<in> set (columns m)
      then Inr \<lparr>columns = ?cs, rows = map (country_record L) (rows ?rest)\<rparr>
      else Inl KeyError)"
    by (simp add: coerce_values_eq country_record_def o_def cell_of_update_other)
  note cty = True
  show ?thesis
  proof (cases "resolution_error L ?rest")
    case (Some e)
    with assms cty 1 show ?thesis
      by (simp add: preprocess_data_def ebind_def split_aggregates_eq)
  next
    case None
    with 1 have 4: "add_iso3 L ?rest = Inr ?d"
      by simp
    show ?thesis
      using assms cty
      apply (simp only: preprocess_data_def ebind_def split_aggregates_eq if_True if_False
          not_True_eq_False not_False_eq_True sum.case prod.case option.case None 4 2 3)
      apply simp
      done
  qed
qed

lemma preprocess_data_reshape_error:
  "reshape df = Inl e \<Longrightarrow> preprocess_data L df = Inl e"
  by (simp add: preprocess_data_def ebind_def)

lemma two_columns: "length cs = 2 \<Longrightarrow> \<exists>a b. cs = [a, b]"
  by (cases cs; cases "tl cs") auto

lemma map_of_country_record_other:
  "k \<noteq> ''Value'' \<Longrightarrow> k \<noteq> ''iso3'' \<Longrightarrow> map_of (country_record L r) k = map_of r k"
  by (simp add: country_record_def update_conv')

lemma cell_of_country_record_other:
  "k \<noteq> ''Value'' \<Longrightarrow> k \<noteq> ''iso3'' \<Longrightarrow> cell_of (country_record L r) k = cell_of r k"
  by (simp add: cell_of_def map_of_country_record_other)

lemma preprocess_data_InrD:
  assumes "preprocess_data L df = Inr (c, g)"
  obtains m where "reshape df = Inr m" "''Country'' \<in> set (columns m)" "''Value'' \<in> set (columns m)"
    "resolution_error L
         \<lparr>columns = columns m, rows = filter (\<lambda>r. \<not> is_aggregate r) (rows m)\<rparr> = None"
    "c = \<lparr>columns = (if ''iso3'' \<in> set (columns m) then columns m else columns m @ [''iso3'']),
          rows = map (country_record L) (filter (\<lambda>r. \<not> is_aggregate r) (rows m))\<rparr>"
    "g = \<lparr>columns = columns m, rows = filter is_aggregate (rows m)\<rparr>"
proof (cases "reshape df")
  case (Inl e)
  with assms show ?thesis by (simp add: preprocess_data_reshape_error)
next
  case (Inr m)
  from assms show ?thesis
    unfolding preprocess_data_after_reshape [OF Inr]
    by (intro that [of m]) (auto simp add: Inr split: if_splits option.splits)
qed

section \<open>The whole function on wide and on two-column sheets\<close>

lemma melt_eq:
  "melt df =
     (if ''Value'' \<in> set (columns df) then Inl ValueError
      else if ''Country'' \<notin> set (columns df) then Inl KeyError
      else Inr \<lparr>columns = [''Country'', ''Month'', ''Value''], rows = melt_rows df\<rparr>)"
  by (simp add: melt_def)

lemma length_melt_rows: "length (melt_rows df) = length (rows df) * length (value_vars df)"
proof -
  have "length (concat (map (\<lambda>v. map (melt_record v) rs) vs)) = length rs * length vs" for rs :: "'a row list" and vs
    by (induction vs) simp_all
  then show ?thesis
    by (simp add: melt_rows_def)
qed

lemma length_value_vars:
  "distinct (columns df) \<Longrightarrow> ''Country'' \<in> set (columns df) \<Longrightarrow>
   length (value_vars df) = length (columns df) - 1"
proof -
  have "distinct cs \<Longrightarrow> x \<in> set cs \<Longrightarrow> length (filter (\<lambda>c. c \<noteq> x) cs) = length cs - 1"
    for cs :: "string list" and x
  proof (induction cs)
    case Nil
    then show ?case by simp
  next
    case (Cons a cs)
    show ?case
    proof (cases "a = x")
      case True
      with Cons.prems have "x \<notin> set cs" by simp
      then have "filter (\<lambda>c. c \<noteq> x) cs = cs"
        by (auto simp add: filter_id_conv)
      with True show ?thesis by simp
    next
      case False
      with Cons have "length (filter (\<lambda>c. c \<noteq> x) cs) = length cs - 1" and "cs \<noteq> []"
        by auto
      with False show ?thesis by (cases cs) simp_all
    qed
  qed
  then show "distinct (columns df) \<Longrightarrow> ''Country'' \<in> set (columns df) \<Longrightarrow>
   length (value_vars df) = length (columns df) - 1"
    by (simp add: value_vars_def)
qed

lemma preprocess_data_wide:
  assumes "2 < length (columns df)"
  shows "preprocess_data L df =
     (if ''Value'' \<in> set (columns df) then Inl ValueError
      else if ''Country'' \<notin> set (columns df) then Inl KeyError
      else case resolution_error L
                  \<lparr>columns = [''Country'', ''Month'', ''Value''],
                   rows = filter (\<lambda>r. \<not> is_aggregate r) (melt_rows df)\<rparr> of
             Some e \<Rightarrow> Inl e
           | None \<Rightarrow>
               Inr (\<lparr>columns = [''Country'', ''Month'', ''Value'', ''iso3''],
                     rows = map (country_record L)
                              (filter (\<lambda>r. \<not> is_aggregate r) (melt_rows df))\<rparr>,
                    \<lparr>columns = [''Country'', ''Month'', ''Value''],
                     rows = filter is_aggregate (melt_rows df)\<rparr>))"
proof (cases "''Value'' \<notin> set (columns df) \<and> ''Country'' \<in> set (columns df)")
  case True
  then have "reshape df = Inr \<lparr>columns = [''Country'', ''Month'', ''Value''], rows = melt_rows df\<rparr>"
    using assms by (simp add: reshape_wide melt_eq)
  from preprocess_data_after_reshape [OF this, of L] True show ?thesis
    by (simp split: option.split)
next
  case False
  then have "reshape df = Inl (if ''Value'' \<in> set (columns df) then ValueError else KeyError)"
    using assms by (auto simp add: reshape_wide melt_eq)
  from preprocess_data_reshape_error [OF this, of L] False show ?thesis
    by auto
qed

lemma preprocess_data_two:
  assumes "columns df = [a, b]"
  shows "preprocess_data L df =
     (if \<not> (a = ''Country'' \<and> b \<noteq> ''Country'') then Inl KeyError
      else case resolution_error L
                  \<lparr>columns = [''Country'', ''Value'', ''Month''],
                   rows = filter (\<lambda>r. \<not> is_aggregate r)
                     (map (\<lambda>r. AList.update ''Month'' (Str b) (rename_row b ''Value'' r)) (rows df))\<rparr> of
             Some e \<Rightarrow> Inl e
           | None \<Rightarrow>
               Inr (\<lparr>columns = [''Country'', ''Value'', ''Month'', ''iso3''],
                     rows = map (country_record L) (filter (\<lambda>r. \<not> is_aggregate r)
                       (map (\<lambda>r. AList.update ''Month'' (Str b) (rename_row b ''Value'' r)) (rows df)))\<rparr>,
                    \<lparr>columns = [''Country'', ''Value'', ''Month''],
                     rows = filter is_aggregate
                       (map (\<lambda>r. AList.update ''Month'' (Str b) (rename_row b ''Value'' r)) (rows df))\<rparr>))"
proof (cases "a = ''Country'' \<and> b \<noteq> ''Country''")
  case True
  then have "reshape df = Inr \<lparr>columns = [''Country'', ''Value'', ''Month''],
       rows = map (\<lambda>r. AList.update ''Month'' (Str b) (rename_row b ''Value'' r)) (rows df)\<rparr>"
    by (auto simp add: reshape_two [OF assms])
  from preprocess_data_after_reshape [OF this, of L] True show ?thesis
    by (simp split: option.split)
next
  case False
  let ?cs = "[if a = b then ''Value'' else a, ''Value'']"
  have "''Country'' \<notin> set (if ''Month'' \<in> set ?cs then ?cs else ?cs @ [''Month''])"
    using False by auto
  with preprocess_data_after_reshape [OF reshape_two [OF assms], of L] False show ?thesis
    by (simp del: set_simps)
qed

lemma reshape_cases:
  assumes "reshape df = Inr m" and "''Country'' \<in> set (columns m)"
  obtains (wide) "2 < length (columns df)" "''Country'' \<in> set (columns df)"
      "m = \<lparr>columns = [''Country'', ''Month'', ''Value''], rows = melt_rows df\<rparr>"
  | (two) b where "columns df = [''Country'', b]" "b \<noteq> ''Country''"
      "m = \<lparr>columns = [''Country'', ''Value'', ''Month''],
            rows = map (\<lambda>r. AList.update ''Month'' (Str b) (rename_row b ''Value'' r)) (rows df)\<rparr>"
proof (cases "2 < length (columns df)")
  case True
  with assms(1) have "melt df = Inr m"
    by (simp add: reshape_wide)
  then have "''Country'' \<in> set (columns df)
      \<and> m = \<lparr>columns = [''Country'', ''Month'', ''Value''], rows = melt_rows df\<rparr>"
    by (auto simp add: melt_eq split: if_splits)
  with True show ?thesis
    by (intro wide) simp_all
next
  case False
  have "\<not> length (columns df) < 2"
    using assms(1) reshape_short [of df] by auto
  with False have "length (columns df) = 2"
    by simp
  then obtain a b where ab: "columns df = [a, b]"
    using two_columns by blast
  from assms show ?thesis
    unfolding reshape_two [OF ab]
    by (intro two [of b]) (auto simp add: ab split: if_splits)
qed

lemma reshape_origin:
  assumes "reshape df = Inr m" and "''Country'' \<in> set (columns m)" and "rectangular df"
    and "r \<in> set (rows m)"
  shows "map fst r = columns m \<and>
    (\<exists>r0\<in>set (rows df). \<exists>v\<in>set (value_vars df).
        cell_of r ''Country'' = cell_of r0 ''Country'' \<and> cell_of r ''Month'' = Str v
      \<and> cell_of r ''Value'' = cell_of r0 v)"
  using assms(1,2)
proof (cases rule: reshape_cases)
  case wide
  with assms(4) obtain v r0 where "v \<in> set (value_vars df)" "r0 \<in> set (rows df)"
      "r = melt_record v r0"
    by (auto simp add: melt_rows_def)
  then show ?thesis
    by (auto simp add: wide(3) melt_record_def cell_of_def)
next
  case (two b)
  with assms(4) obtain r0 where r0: "r0 \<in> set (rows df)"
      and r: "r = AList.update ''Month'' (Str b) (rename_row b ''Value'' r0)"
    by auto
  from r0 assms(3) have "map fst r0 = [''Country'', b]"
    by (simp add: rectangular_def list_all_iff two(1))
  then obtain x y where "r0 = [(''Country'', x), (b, y)]"
    by (cases r0; cases "tl r0") auto
  with two(2) r0 show ?thesis
    by (auto simp add: r two rename_row_def cell_of_def value_vars_def intro!: bexI [of _ r0])
qed

lemma preprocess_data_stages:
  assumes "preprocess_data L df = Inr (c, g)"
  obtains m rest d where
    "reshape df = Inr m" "''Country'' \<in> set (columns m)"
    "split_aggregates m = Inr (g, rest)"
    "add_iso3 L rest = Inr d" "dropna d ''iso3'' = Inr d" "coerce_values L d = Inr c"
    "rows g = filter is_aggregate (rows m)" "columns g = columns m"
    "rows rest = filter (\<lambda>r. \<not> is_aggregate r) (rows m)"
    "rows d = map (\<lambda>r. AList.update ''iso3'' (iso3_code L r) r) (rows rest)"
    "rows c = map (country_record L) (rows rest)"
proof -
  from assms obtain m where m: "reshape df = Inr m" "''Country'' \<in> set (columns m)"
      "''Value'' \<in> set (columns m)"
    and ns: "resolution_error L
         \<lparr>columns = columns m, rows = filter (\<lambda>r. \<not> is_aggregate r) (rows m)\<rparr> = None"
    and c: "c = \<lparr>columns = (if ''iso3'' \<in> set (columns m) then columns m else columns m @ [''iso3'']),
          rows = map (country_record L) (filter (\<lambda>r. \<not> is_aggregate r) (rows m))\<rparr>"
    and g: "g = \<lparr>columns = columns m, rows = filter is_aggregate (rows m)\<rparr>"
    by (rule preprocess_data_InrD)
  let ?rest = "\<lparr>columns = columns m, rows = filter (\<lambda>r. \<not> is_aggregate r) (rows m)\<rparr>"
  let ?cs = "if ''iso3'' \<in> set (columns m) then columns m else columns m @ [''iso3'']"
  let ?d = "\<lparr>columns = ?cs,
             rows = map (\<lambda>r. AList.update ''iso3'' (iso3_code L r) r) (rows ?rest)\<rparr>"
  have 0: "split_aggregates m = Inr (g, ?rest)"
    using m(2) by (simp add: split_aggregates_eq g)
  have 1: "add_iso3 L ?rest = Inr ?d"
    using m(2) ns by (simp add: add_iso3_eq)
  have 2: "dropna ?d ''iso3'' = Inr ?d"
    by (rule dropna_iso3_eq) simp
  have 3: "coerce_values L ?d = Inr c"
    using m(3) by (simp add: coerce_values_eq country_record_def o_def cell_of_update_other c)
  show ?thesis
    by (rule that [OF m(1,2) 0 1 2 3]) (simp_all add: g c)
qed

section \<open>Evaluation on the examples\<close>

lemmas row_eval = melt_rows_def value_vars_def melt_record_def cell_of_def is_aggregate_def
  country_record_def iso3_code_def matched_codes_def item_of_codes_def convert_name_def
  coerce_def rename_row_def several_codes_single_row_def resolution_error_def ebind_def

lemma usa_global_sheet_value:
  fixes L :: "'n::numeral library"
  assumes "iso3_match L ''USA'' = Inr [''USA'']"
    and "parse_numeric L ''1000'' = Some 1000"
    and "parse_numeric L ''1100'' = Some 1100"
  shows "preprocess_data L
           \<lparr>columns = [''Country'', ''Jan'', ''Feb''],
            rows = [[(''Country'', Str ''USA''), (''Jan'', Str ''1,000''), (''Feb'', Str ''1,100'')],
                    [(''Country'', Str ''Global''), (''Jan'', Str ''5,000''), (''Feb'', Str ''5,200'')]]\<rparr>
         = Inr (\<lparr>columns = [''Country'', ''Month'', ''Value'', ''iso3''],
                 rows = [[(''Country'', Str ''USA''), (''Month'', Str ''Jan''),
                          (''Value'', Num 1000), (''iso3'', Str ''USA'')],
                         [(''Country'', Str ''USA''), (''Month'', Str ''Feb''),
                          (''Value'', Num 1100), (''iso3'', Str ''USA'')]]\<rparr>,
                \<lparr>columns = [''Country'', ''Month'', ''Value''],
                 rows = [[(''Country'', Str ''Global''), (''Month'', Str ''Jan''),
                          (''Value'', Str ''5,000'')],
                         [(''Country'', Str ''Global''), (''Month'', Str ''Feb''),
                          (''Value'', Str ''5,200'')]]\<rparr>)"
  using assms by (simp add: preprocess_data_wide row_eval)

lemma example_library_simps:
  "iso3_match example_library = example_match"
  "parse_numeric example_library = parse_decimal"
  "str_numeric example_library = show_int"
  "str_codes example_library = show_codes"
  by (simp_all add: example_library_def)

lemma example_parses:
  "parse_decimal ''1000'' = Some 1000" "parse_decimal ''1100'' = Some 1100"
  "parse_decimal ''1234'' = Some 1234" "parse_decimal ''500'' = Some 500"
  "parse_decimal ''n/a'' = None" "parse_decimal '''' = None"
  by (simp_all add: parse_decimal_def digit_of_def)

lemma example_matches:
  "example_match ''USA'' = Inr [''USA'']" "example_match ''Germany'' = Inr [''DEU'']"
  "example_match ''global'' = Inr []" "example_match ''Unknownland'' = Inr []"
  "example_match ''United States and Canada'' = Inr [''USA'', ''CAN'']"
  "example_match ''a('' = Inl RegexError"
  by (simp_all add: example_match_def)

lemma sheet_march_stages:
  "reshape sheet_march = Inr sheet_march_reshaped"
  "split_aggregates sheet_march_reshaped = Inr (sheet_march_aggregates, sheet_march_others)"
  "add_iso3 example_library sheet_march_others = Inr sheet_march_resolved"
  "dropna sheet_march_resolved ''iso3'' = Inr sheet_march_resolved"
  "coerce_values example_library sheet_march_resolved = Inr sheet_march_countries"
  by code_simp+

lemma sheet_march_value:
  "preprocess_data example_library sheet_march = Inr (sheet_march_countries, sheet_march_aggregates)"
  by (simp add: preprocess_data_def ebind_def sheet_march_stages)

lemma sheet_jan_feb_value:
  "preprocess_data example_library sheet_jan_feb
     = Inr (sheet_jan_feb_countries, sheet_jan_feb_aggregates)"
  by code_simp

lemma sheet_ambiguous_value: "preprocess_data example_library sheet_ambiguous = Inl ValueError"
  by code_simp

lemma sheet_bad_name_value:
  "preprocess_data example_library
     \<lparr>columns = [''Country'', ''March''],
      rows = [[(''Country'', Str ''a(''), (''March'', Str ''5'')],
              [(''Country'', Str ''USA''), (''March'', Str ''6'')]]\<rparr> = Inl RegexError"
  by code_simp

lemma rectangular_sheet_march: "rectangular sheet_march"
  by (simp add: rectangular_def sheet_march_def)

section \<open>The store model computes the pure function\<close>

lemma sbind_read: "sbind (read_frame p) k s = k (frames s p) s"
  by (simp add: sbind_def read_frame_def)

lemma sbind_lift: "sbind (lift r) k s = (case r of Inl e \<Rightarrow> Inl e | Inr x \<Rightarrow> k x s)"
  by (simp add: sbind_def lift_def split: sum.split)

lemma sbind_new:
  "sbind (new_frame f) k s =
     k (next_id s) \<lparr>frames = (frames s)(next_id s := f), next_id = Suc (next_id s)\<rparr>"
  by (simp add: sbind_def new_frame_def)

lemma sbind_write:
  "sbind (write_frame p f) k s = k () \<lparr>frames = (frames s)(p := f), next_id = next_id s\<rparr>"
  by (simp add: sbind_def write_frame_def)

lemma sbind_assoc: "sbind (sbind m f) k = sbind m (\<lambda>x. sbind (f x) k)"
  by (rule ext) (simp add: sbind_def split: sum.split prod.split)

lemma sbind_sreturn: "sbind m sreturn = m"
  by (rule ext) (simp add: sbind_def sreturn_def split: sum.split prod.split)

lemma reshape_at_eq:
  "reshape_at p s =
     (case reshape (frames s p) of Inl e \<Rightarrow> Inl e
      | Inr m \<Rightarrow> Inr (next_id s, \<lparr>frames = (frames s)(next_id s := m), next_id = Suc (next_id s)\<rparr>))"
proof (cases "2 < length (columns (frames s p))")
  case True
  then show ?thesis
    by (simp add: reshape_at_def sbind_read melt_at_def sbind_assoc sbind_lift reshape_def
        sbind_sreturn new_frame_def split: sum.split)
next
  case False
  then show ?thesis
    by (simp add: reshape_at_def sbind_read sbind_lift rename_at_def setitem_at_def sbind_assoc
        sbind_new sbind_write sreturn_def reshape_def ebind_def Let_def split: sum.split)
qed

lemma split_aggregates_at_eq:
  assumes "p < next_id s"
  shows "split_aggregates_at p s =
     (case split_aggregates (frames s p) of Inl e \<Rightarrow> Inl e
      | Inr (g, rest) \<Rightarrow>
          Inr ((next_id s, Suc (next_id s)),
               \<lparr>frames = (frames s)(next_id s := g, Suc (next_id s) := rest),
                next_id = Suc (Suc (next_id s))\<rparr>))"
  using assms
  by (simp add: split_aggregates_at_def split_aggregates_def getitem_at_def select_at_def
      sbind_assoc sbind_read sbind_lift sbind_new sreturn_def ebind_def split: sum.split)

lemma add_iso3_at_eq:
  "add_iso3_at L p s =
     (case add_iso3 L (frames s p) of Inl e \<Rightarrow> Inl e
      | Inr d \<Rightarrow> Inr ((), \<lparr>frames = (frames s)(p := d), next_id = next_id s\<rparr>))"
  by (simp add: add_iso3_at_def add_iso3_def getitem_at_def setitem_value_at_def
      sbind_assoc sbind_read sbind_lift write_frame_def ebind_def split: sum.split)

lemma coerce_values_at_eq:
  "coerce_values_at L p s =
     (case coerce_values L (frames s p) of Inl e \<Rightarrow> Inl e
      | Inr d \<Rightarrow> Inr ((), \<lparr>frames = (frames s)(p := d), next_id = next_id s\<rparr>))"
  by (simp add: coerce_values_at_def coerce_values_def getitem_at_def setitem_at_def
      sbind_assoc sbind_read sbind_lift write_frame_def ebind_def split: sum.split)

lemma dropna_at_eq:
  "dropna_at p name s =
     (case dropna (frames s p) name of Inl e \<Rightarrow> Inl e
      | Inr d \<Rightarrow> Inr (next_id s, \<lparr>frames = (frames s)(next_id s := d), next_id = Suc (next_id s)\<rparr>))"
  by (simp add: dropna_at_def sbind_assoc sbind_read sbind_lift new_frame_def sbind_sreturn
      split: sum.split)

lemma preprocess_data_st_run:
  "preprocess_data_st L p s =
     (case reshape (frames s p) of Inl e \<Rightarrow> Inl e | Inr m \<Rightarrow>
      case split_aggregates m of Inl e \<Rightarrow> Inl e | Inr (g, rest) \<Rightarrow>
      case add_iso3 L rest of Inl e \<Rightarrow> Inl e | Inr d0 \<Rightarrow>
      case dropna d0 ''iso3'' of Inl e \<Rightarrow> Inl e | Inr d \<Rightarrow>
      case coerce_values L d of Inl e \<Rightarrow> Inl e | Inr c \<Rightarrow>
        Inr ((next_id s + 3, next_id s + 1),
             \<lparr>frames = (frames s)(next_id s := m, next_id s + 1 := g,
                                   next_id s + 2 := d0, next_id s + 3 := c),
              next_id = next_id s + 4\<rparr>))"
  by (simp add: preprocess_data_st_def sbind_def reshape_at_eq split_aggregates_at_eq
      add_iso3_at_eq dropna_at_eq coerce_values_at_eq sreturn_def numeral_3_eq_3 numeral_Bit0
      split: sum.split prod.split)

lemma store_run_value:
  "preprocess_data_st example_library 0 store_with_sheet_march = Inr ((4, 2), store_after_run)"
proof -
  have "frames store_with_sheet_march 0 = sheet_march" "next_id store_with_sheet_march = 1"
    by (simp_all add: store_with_sheet_march_def)
  then show ?thesis
    by (simp add: preprocess_data_st_run sheet_march_stages store_after_run_def eval_nat_numeral)
qed

section \<open>The Shaper: claims C1 to C8 and C10\<close>

text \<open>
  Claim C1. The claim says that a row whose Country matches no name is absent from the
  country-level set, and that the sheet with columns Country, March and the single row
  (``Unknownland'', ``500'') yields an empty country-level set. The program keeps the row:
  \<^verbatim>\<open>convert\<close> writes the string \<^verbatim>\<open>'not found'\<close> under \<^verbatim>\<open>iso3\<close>, which is not a missing
  value, so \<^verbatim>\<open>dropna\<close> at line 32 removes nothing, against the comment of line 31. The
  theorem evaluates the program on that sheet, for every library in which ``Unknownland''
  matches no entry.
\<close>

theorem unknownland_retained:
  assumes "iso3_match L ''Unknownland'' = Inr []"
  shows "preprocess_data L
           \<lparr>columns = [''Country'', ''March''],
            rows = [[(''Country'', Str ''Unknownland''), (''March'', Str ''500'')]]\<rparr>
         = Inr (\<lparr>columns = [''Country'', ''Value'', ''Month'', ''iso3''],
                 rows = [[(''Country'', Str ''Unknownland''),
                          (''Value'', coerce L (Str ''500'')),
                          (''Month'', Str ''March''),
                          (''iso3'', Str ''not found'')]]\<rparr>,
                \<lparr>columns = [''Country'', ''Value'', ''Month''], rows = []\<rparr>)"
proof -
  let ?df = "\<lparr>columns = [''Country'', ''March''],
            rows = [[(''Country'', Str ''Unknownland''), (''March'', Str ''500'')]]\<rparr> :: 'a frame"
  have r: "reshape ?df = Inr \<lparr>columns = [''Country'', ''Value'', ''Month''],
             rows = [[(''Country'', Str ''Unknownland''), (''Value'', Str ''500''), (''Month'', Str ''March'')]]\<rparr>"
    by (simp add: reshape_two [of ?df "''Country''" "''March''"] rename_row_def)
  show ?thesis
    using assms
    by (simp add: preprocess_data_after_reshape [OF r] is_aggregate_def cell_of_def
        country_record_def iso3_code_def matched_codes_def item_of_codes_def convert_name_def
        several_codes_single_row_def resolution_error_def ebind_def)
qed

theorem unknownland_retained_witness:
  "preprocess_data example_library
           \<lparr>columns = [''Country'', ''March''],
            rows = [[(''Country'', Str ''Unknownland''), (''March'', Str ''500'')]]\<rparr>
         = Inr (\<lparr>columns = [''Country'', ''Value'', ''Month'', ''iso3''],
                 rows = [[(''Country'', Str ''Unknownland''),
                          (''Value'', Num 500),
                          (''Month'', Str ''March''),
                          (''iso3'', Str ''not found'')]]\<rparr>,
                \<lparr>columns = [''Country'', ''Value'', ''Month''], rows = []\<rparr>)"
proof -
  have m: "iso3_match example_library ''Unknownland'' = Inr []"
    by (simp add: example_library_def example_match_def)
  have p: "coerce example_library (Str ''500'') = Num 500"
    by (simp add: coerce_def example_library_def parse_decimal_def digit_of_def)
  show ?thesis
    using unknownland_retained [OF m] by (simp only: p)
qed

text \<open>
  Claim C2 (as amended). For the sheet with columns Country, Jan, Feb and the rows
  (``USA'', ``1,000'', ``1,100'') and (``Global'', ``5,000'', ``5,200''), and for every
  library that matches ``USA'' to the one code USA and parses the numerals 1000 and 1100, the
  Shaper
  returns the country-level records (USA, Jan, 1000, USA) and (USA, Feb, 1100, USA) and
  the aggregate records (Global, Jan, ``5,000'') and (Global, Feb, ``5,200''). The
  aggregate records are split off at line 24, before the coercion of line 35, so their
  Values are the cell strings as read.
\<close>

theorem usa_global_example:
  fixes L :: "'n::numeral library"
  assumes "iso3_match L ''USA'' = Inr [''USA'']"
    and "parse_numeric L ''1000'' = Some 1000"
    and "parse_numeric L ''1100'' = Some 1100"
  shows "preprocess_data L
           \<lparr>columns = [''Country'', ''Jan'', ''Feb''],
            rows = [[(''Country'', Str ''USA''), (''Jan'', Str ''1,000''), (''Feb'', Str ''1,100'')],
                    [(''Country'', Str ''Global''), (''Jan'', Str ''5,000''), (''Feb'', Str ''5,200'')]]\<rparr>
         = Inr (\<lparr>columns = [''Country'', ''Month'', ''Value'', ''iso3''],
                 rows = [[(''Country'', Str ''USA''), (''Month'', Str ''Jan''),
                          (''Value'', Num 1000), (''iso3'', Str ''USA'')],
                         [(''Country'', Str ''USA''), (''Month'', Str ''Feb''),
                          (''Value'', Num 1100), (''iso3'', Str ''USA'')]]\<rparr>,
                \<lparr>columns = [''Country'', ''Month'', ''Value''],
                 rows = [[(''Country'', Str ''Global''), (''Month'', Str ''Jan''),
                          (''Value'', Str ''5,000'')],
                         [(''Country'', Str ''Global''), (''Month'', Str ''Feb''),
                          (''Value'', Str ''5,200'')]]\<rparr>)"
  using assms by (rule usa_global_sheet_value)

theorem usa_global_example_witness:
  "(iso3_match example_library ''USA'' = Inr [''USA'']) \<and>
   (parse_numeric example_library ''1000'' = Some 1000) \<and>
   (parse_numeric example_library ''1100'' = Some 1100) \<and>
   (preprocess_data example_library
           \<lparr>columns = [''Country'', ''Jan'', ''Feb''],
            rows = [[(''Country'', Str ''USA''), (''Jan'', Str ''1,000''), (''Feb'', Str ''1,100'')],
                    [(''Country'', Str ''Global''), (''Jan'', Str ''5,000''), (''Feb'', Str ''5,200'')]]\<rparr>
         = Inr (\<lparr>columns = [''Country'', ''Month'', ''Value'', ''iso3''],
                 rows = [[(''Country'', Str ''USA''), (''Month'', Str ''Jan''),
                          (''Value'', Num 1000), (''iso3'', Str ''USA'')],
                         [(''Country'', Str ''USA''), (''Month'', Str ''Feb''),
                          (''Value'', Num 1100), (''iso3'', Str ''USA'')]]\<rparr>,
                \<lparr>columns = [''Country'', ''Month'', ''Value''],
                 rows = [[(''Country'', Str ''Global''), (''Month'', Str ''Jan''),
                          (''Value'', Str ''5,000'')],
                         [(''Country'', Str ''Global''), (''Month'', Str ''Feb''),
                          (''Value'', Str ''5,200'')]]\<rparr>))"
proof -
  have h1: "iso3_match example_library ''USA'' = Inr [''USA'']"
    by (simp add: example_library_simps example_matches)
  have h2: "parse_numeric example_library ''1000'' = Some 1000"
    by (simp add: example_library_simps example_parses)
  have h3: "parse_numeric example_library ''1100'' = Some 1100"
    by (simp add: example_library_simps example_parses)
  note w = usa_global_example [OF h1 h2 h3]
  show ?thesis
    by (rule conjI [OF h1 conjI [OF h2 conjI [OF h3 w]]])
qed

text \<open>
  Claim C2 as it is stated gives the aggregate records the parsed numbers 5000 and 5200
  as Values. That pair of record sets is not the output of the program on the sheet.
\<close>

theorem usa_global_claimed_output_counterexample:
  "preprocess_data example_library
           \<lparr>columns = [''Country'', ''Jan'', ''Feb''],
            rows = [[(''Country'', Str ''USA''), (''Jan'', Str ''1,000''), (''Feb'', Str ''1,100'')],
                    [(''Country'', Str ''Global''), (''Jan'', Str ''5,000''), (''Feb'', Str ''5,200'')]]\<rparr>
         \<noteq> Inr (\<lparr>columns = [''Country'', ''Month'', ''Value'', ''iso3''],
                 rows = [[(''Country'', Str ''USA''), (''Month'', Str ''Jan''),
                          (''Value'', Num 1000), (''iso3'', Str ''USA'')],
                         [(''Country'', Str ''USA''), (''Month'', Str ''Feb''),
                          (''Value'', Num 1100), (''iso3'', Str ''USA'')]]\<rparr>,
                \<lparr>columns = [''Country'', ''Month'', ''Value''],
                 rows = [[(''Country'', Str ''Global''), (''Month'', Str ''Jan''),
                          (''Value'', Num 5000)],
                         [(''Country'', Str ''Global''), (''Month'', Str ''Feb''),
                          (''Value'', Num 5200)]]\<rparr>)"
  by (simp add: usa_global_sheet_value [of example_library] example_library_simps
      example_parses example_matches)

text \<open>
  Claim C3. For every table with exactly the two columns Country and one data column
  \<open>h\<close>: whenever the Shaper returns, the reshape was no pivot (it gives one record per
  input row, in order, the data column relabelled Value and the field Month set to
  \<open>h\<close>), and every record of both output sets has Month equal to the header \<open>h\<close> as it is
  written.
\<close>

theorem two_column_period_is_header:
  assumes "columns df = [''Country'', h]" and "preprocess_data L df = Inr (c, g)"
  shows "\<exists>m. reshape df = Inr m
           \<and> rows m = map (\<lambda>r. AList.update ''Month'' (Str h) (rename_row h ''Value'' r)) (rows df)
           \<and> (\<forall>r \<in> set (rows m) \<union> set (rows c) \<union> set (rows g). map_of r ''Month'' = Some (Str h))"
proof -
  let ?m = "\<lparr>columns = [''Country'', ''Value'', ''Month''],
            rows = map (\<lambda>r. AList.update ''Month'' (Str h) (rename_row h ''Value'' r)) (rows df)\<rparr>"
  from assms(2) have h: "h \<noteq> ''Country''"
    and c: "rows c = map (country_record L) (filter (\<lambda>r. \<not> is_aggregate r) (rows ?m))"
    and g: "rows g = filter is_aggregate (rows ?m)"
    unfolding preprocess_data_two [OF assms(1)] by (auto split: if_splits option.splits)
  have r: "reshape df = Inr ?m"
    using h by (simp add: reshape_two [OF assms(1)])
  have month: "map_of r ''Month'' = Some (Str h)" if "r \<in> set (rows ?m)" for r
    using that by (auto simp add: update_conv')
  have "map_of r ''Month'' = Some (Str h)" if "r \<in> set (rows c)" for r
  proof -
    from that obtain r0 where "r0 \<in> set (rows ?m)" and "r = country_record L r0"
      by (auto simp add: c)
    then show ?thesis
      using month [of r0] by (simp add: map_of_country_record_other)
  qed
  moreover have "map_of r ''Month'' = Some (Str h)" if "r \<in> set (rows g)" for r
    using that month [of r] by (simp add: g)
  ultimately show ?thesis
    using r month by (intro exI [of _ ?m]) auto
qed

theorem two_column_period_is_header_witness:
  "(columns sheet_march = [''Country'', ''March'']) \<and>
   (preprocess_data example_library sheet_march = Inr (sheet_march_countries, sheet_march_aggregates)) \<and>
   (\<exists>m. reshape sheet_march = Inr m
           \<and> rows m = map (\<lambda>r. AList.update ''Month'' (Str ''March'') (rename_row ''March'' ''Value'' r)) (rows sheet_march)
           \<and> (\<forall>r \<in> set (rows m) \<union> set (rows sheet_march_countries) \<union> set (rows sheet_march_aggregates). map_of r ''Month'' = Some (Str ''March'')))"
proof -
  have h1: "columns sheet_march = [''Country'', ''March'']"
    by (simp add: sheet_march_def)
  have h2: "preprocess_data example_library sheet_march = Inr (sheet_march_countries, sheet_march_aggregates)"
    by (rule sheet_march_value)
  note w = two_column_period_is_header [OF h1 h2]
  show ?thesis
    by (rule conjI [OF h1 conjI [OF h2 w]])
qed

text \<open>
  Claim C4. When the Shaper returns, the aggregate set is exactly the reshaped rows whose
  Country cell is the string ``International'' or the string ``Global'' (equality of
  cells, so no other spelling or capitalisation matches); all the other rows, and only
  they, form the frame on which lines 27-35 compute the country-level set; and no
  country-level record has one of the two labels.
\<close>

theorem aggregates_routed_by_exact_label:
  assumes "preprocess_data L df = Inr (c, g)"
  shows "\<exists>m rest. reshape df = Inr m
           \<and> split_aggregates m = Inr (g, rest)
           \<and> ebind (add_iso3 L rest) (\<lambda>d. ebind (dropna d ''iso3'') (coerce_values L)) = Inr c
           \<and> rows g = filter (\<lambda>r. cell_of r ''Country'' = Str ''International''
                                  \<or> cell_of r ''Country'' = Str ''Global'') (rows m)
           \<and> rows rest = filter (\<lambda>r. \<not> (cell_of r ''Country'' = Str ''International''
                                  \<or> cell_of r ''Country'' = Str ''Global'')) (rows m)
           \<and> (\<forall>r \<in> set (rows c). cell_of r ''Country'' \<noteq> Str ''International''
                                  \<and> cell_of r ''Country'' \<noteq> Str ''Global'')"
proof -
  from assms obtain m where m: "reshape df = Inr m" "''Country'' \<in> set (columns m)"
    and c: "c = \<lparr>columns = (if ''iso3'' \<in> set (columns m) then columns m else columns m @ [''iso3'']),
          rows = map (country_record L) (filter (\<lambda>r. \<not> is_aggregate r) (rows m))\<rparr>"
    and g: "g = \<lparr>columns = columns m, rows = filter is_aggregate (rows m)\<rparr>"
    by (rule preprocess_data_InrD)
  let ?rest = "\<lparr>columns = columns m, rows = filter (\<lambda>r. \<not> is_aggregate r) (rows m)\<rparr>"
  have s: "split_aggregates m = Inr (g, ?rest)"
    using m(2) by (simp add: split_aggregates_eq g)
  have e: "ebind (add_iso3 L ?rest) (\<lambda>d. ebind (dropna d ''iso3'') (coerce_values L)) = Inr c"
    using assms by (auto simp add: preprocess_data_def m(1) s ebind_def split: sum.splits)
  have "cell_of r ''Country'' \<noteq> Str ''International'' \<and> cell_of r ''Country'' \<noteq> Str ''Global''"
    if "r \<in> set (rows c)" for r
  proof -
    from that obtain r0 where "\<not> is_aggregate r0" and "r = country_record L r0"
      by (auto simp add: c)
    then show ?thesis
      by (simp add: cell_of_country_record_other is_aggregate_def)
  qed
  then show ?thesis
    using m(1) s e
    by (intro exI [of _ m] exI [of _ ?rest]) (simp add: g is_aggregate_def [abs_def])
qed

theorem aggregates_routed_by_exact_label_witness:
  "(preprocess_data example_library sheet_march = Inr (sheet_march_countries, sheet_march_aggregates)) \<and>
   (\<exists>m rest. reshape sheet_march = Inr m
           \<and> split_aggregates m = Inr (sheet_march_aggregates, rest)
           \<and> ebind (add_iso3 example_library rest) (\<lambda>d. ebind (dropna d ''iso3'') (coerce_values example_library)) = Inr sheet_march_countries
           \<and> rows sheet_march_aggregates = filter (\<lambda>r. cell_of r ''Country'' = Str ''International''
                                  \<or> cell_of r ''Country'' = Str ''Global'') (rows m)
           \<and> rows rest = filter (\<lambda>r. \<not> (cell_of r ''Country'' = Str ''International''
                                  \<or> cell_of r ''Country'' = Str ''Global'')) (rows m)
           \<and> (\<forall>r \<in> set (rows sheet_march_countries). cell_of r ''Country'' \<noteq> Str ''International''
                                  \<and> cell_of r ''Country'' \<noteq> Str ''Global''))"
proof -
  have h1: "preprocess_data example_library sheet_march = Inr (sheet_march_countries, sheet_march_aggregates)"
    by (rule sheet_march_value)
  note w = aggregates_routed_by_exact_label [OF h1]
  show ?thesis
    by (rule conjI [OF h1 w])
qed



text \<open>
  Claim C6. When the Shaper returns on a table with more than two columns, the pivot has
  (number of rows) times (number of data columns) records, the data columns being all
  columns but Country (one less than the number of columns when the headers are
  distinct); the aggregate set is the records with a reserved label and the rest go on;
  and the country-level records, the records removed at line 32 and the aggregate records
  together are as many as the pivot has.
\<close>

theorem pivot_record_counts:
  assumes "2 < length (columns df)" and "preprocess_data L df = Inr (c, g)"
  shows "\<exists>m rest d0. reshape df = Inr m \<and> split_aggregates m = Inr (g, rest)
           \<and> add_iso3 L rest = Inr d0
           \<and> length (rows m) = length (rows df) * length (value_vars df)
           \<and> (distinct (columns df) \<longrightarrow> length (value_vars df) = length (columns df) - 1)
           \<and> rows g = filter is_aggregate (rows m)
           \<and> rows rest = filter (\<lambda>r. \<not> is_aggregate r) (rows m)
           \<and> length (rows c) + length (filter (\<lambda>r. cell_of r ''iso3'' = NaN) (rows d0))
               + length (rows g) = length (rows df) * length (value_vars df)"
proof -
  from assms(2) obtain m rest d where m: "reshape df = Inr m" "''Country'' \<in> set (columns m)"
    and s: "split_aggregates m = Inr (g, rest)"
    and d: "add_iso3 L rest = Inr d" "dropna d ''iso3'' = Inr d" "coerce_values L d = Inr c"
    and g: "rows g = filter is_aggregate (rows m)" "columns g = columns m"
    and rest: "rows rest = filter (\<lambda>r. \<not> is_aggregate r) (rows m)"
    and rd: "rows d = map (\<lambda>r. AList.update ''iso3'' (iso3_code L r) r) (rows rest)"
    and rc: "rows c = map (country_record L) (rows rest)"
    by (rule preprocess_data_stages)
  from m assms(1) have mm: "m = \<lparr>columns = [''Country'', ''Month'', ''Value''], rows = melt_rows df\<rparr>"
    and cty: "''Country'' \<in> set (columns df)"
    by (cases rule: reshape_cases; simp)+
  have n: "length (rows m) = length (rows df) * length (value_vars df)"
    by (simp add: mm length_melt_rows)
  have dropped: "filter (\<lambda>r. cell_of r ''iso3'' = NaN) (rows d) = []"
    by (simp add: rd filter_empty_conv cell_of_update_same iso3_code_not_missing)
  have "length (rows c) + length (rows g) = length (rows m)"
    by (simp add: rc rest g sum_length_filter_compl add.commute)
  with n dropped have "length (rows c) + length (filter (\<lambda>r. cell_of r ''iso3'' = NaN) (rows d))
               + length (rows g) = length (rows df) * length (value_vars df)"
    by simp
  with m(1) s d(1) n g(1) rest cty show ?thesis
    by (intro exI [of _ m] exI [of _ rest] exI [of _ d]) (simp add: length_value_vars)
qed

theorem pivot_record_counts_witness:
  "(2 < length (columns sheet_jan_feb)) \<and>
   (preprocess_data example_library sheet_jan_feb = Inr (sheet_jan_feb_countries, sheet_jan_feb_aggregates)) \<and>
   (\<exists>m rest d0. reshape sheet_jan_feb = Inr m \<and> split_aggregates m = Inr (sheet_jan_feb_aggregates, rest)
           \<and> add_iso3 example_library rest = Inr d0
           \<and> length (rows m) = length (rows sheet_jan_feb) * length (value_vars sheet_jan_feb)
           \<and> (distinct (columns sheet_jan_feb) \<longrightarrow> length (value_vars sheet_jan_feb) = length (columns sheet_jan_feb) - 1)
           \<and> rows sheet_jan_feb_aggregates = filter is_aggregate (rows m)
           \<and> rows rest = filter (\<lambda>r. \<not> is_aggregate r) (rows m)
           \<and> length (rows sheet_jan_feb_countries) + length (filter (\<lambda>r. cell_of r ''iso3'' = NaN) (rows d0))
               + length (rows sheet_jan_feb_aggregates) = length (rows sheet_jan_feb) * length (value_vars sheet_jan_feb))"
proof -
  have h1: "2 < length (columns sheet_jan_feb)"
    by (simp add: sheet_jan_feb_def)
  have h2: "preprocess_data example_library sheet_jan_feb = Inr (sheet_jan_feb_countries, sheet_jan_feb_aggregates)"
    by (rule sheet_jan_feb_value)
  note w = pivot_record_counts [OF h1 h2]
  show ?thesis
    by (rule conjI [OF h1 conjI [OF h2 w]])
qed

text \<open>
  Claim C7. On the store of mutable frames: when the Shaper returns for the frame at
  address \<open>p\<close>, the frame at \<open>p\<close> and every other frame that existed before the call are
  unchanged; the two frames returned are the value of the pure function
  \<open>preprocess_data\<close> on the input frame, so they depend on nothing else; and a second call
  on the same address returns, with two frames equal to those of the first call, which
  are themselves unchanged by the second call.
\<close>

theorem shaper_repeatable_input_unchanged:
  assumes "preprocess_data_st L p s = Inr ((pc, pg), s')" and "p < next_id s"
  shows "frames s' p = frames s p
       \<and> preprocess_data L (frames s p) = Inr (frames s' pc, frames s' pg)
       \<and> (\<exists>pc' pg' s''. preprocess_data_st L p s' = Inr ((pc', pg'), s'')
             \<and> frames s'' pc' = frames s' pc \<and> frames s'' pg' = frames s' pg
             \<and> frames s'' pc = frames s' pc \<and> frames s'' pg = frames s' pg
             \<and> frames s'' p = frames s p
             \<and> (\<forall>q < next_id s. frames s' q = frames s q \<and> frames s'' q = frames s q))"
proof -
  from assms(1) obtain m g rest d0 d c where
    st: "reshape (frames s p) = Inr m" "split_aggregates m = Inr (g, rest)"
      "add_iso3 L rest = Inr d0" "dropna d0 ''iso3'' = Inr d" "coerce_values L d = Inr c"
    and res: "pc = next_id s + 3" "pg = next_id s + 1"
      "s' = \<lparr>frames = (frames s)(next_id s := m, next_id s + 1 := g,
                                   next_id s + 2 := d0, next_id s + 3 := c),
              next_id = next_id s + 4\<rparr>"
    unfolding preprocess_data_st_run by (auto split: sum.splits prod.splits)
  have pure: "preprocess_data L (frames s p) = Inr (c, g)"
    by (simp add: preprocess_data_def ebind_def st)
  have old: "frames s' q = frames s q" if "q < next_id s" for q
    using that by (simp add: res)
  have out: "frames s' pc = c" "frames s' pg = g"
    by (simp_all add: res)
  have same: "frames s' p = frames s p"
    using assms(2) by (rule old)
  let ?s'' = "\<lparr>frames = (frames s')(next_id s' := m, next_id s' + 1 := g,
                                   next_id s' + 2 := d0, next_id s' + 3 := c),
              next_id = next_id s' + 4\<rparr>"
  have again: "preprocess_data_st L p s' = Inr ((next_id s' + 3, next_id s' + 1), ?s'')"
    by (simp add: preprocess_data_st_run [of L p s'] same st)
  have n': "next_id s' = next_id s + 4"
    by (simp add: res)
  have old2: "frames ?s'' q = frames s q" if "q < next_id s" for q
    using that by (simp add: n') (simp add: res)
  have "frames ?s'' (next_id s' + 3) = frames s' pc" "frames ?s'' (next_id s' + 1) = frames s' pg"
    "frames ?s'' pc = frames s' pc" "frames ?s'' pg = frames s' pg" "frames ?s'' p = frames s p"
    using assms(2) by (simp_all add: out n') (simp_all add: res)
  with again same old old2 pure out show ?thesis
    by (intro conjI exI [of _ "next_id s' + 3"] exI [of _ "next_id s' + 1"] exI [of _ ?s'']) simp_all
qed

theorem shaper_repeatable_input_unchanged_witness:
  "(preprocess_data_st example_library 0 store_with_sheet_march = Inr ((4, 2), store_after_run)) \<and>
   (0 < next_id store_with_sheet_march) \<and>
   (frames store_after_run 0 = frames store_with_sheet_march 0
       \<and> preprocess_data example_library (frames store_with_sheet_march 0) = Inr (frames store_after_run 4, frames store_after_run 2)
       \<and> (\<exists>pc' pg' s''. preprocess_data_st example_library 0 store_after_run = Inr ((pc', pg'), s'')
             \<and> frames s'' pc' = frames store_after_run 4 \<and> frames s'' pg' = frames store_after_run 2
             \<and> frames s'' 4 = frames store_after_run 4 \<and> frames s'' 2 = frames store_after_run 2
             \<and> frames s'' 0 = frames store_with_sheet_march 0
             \<and> (\<forall>q < next_id store_with_sheet_march. frames store_after_run q = frames store_with_sheet_march q \<and> frames s'' q = frames store_with_sheet_march q)))"
proof -
  have h1: "preprocess_data_st example_library 0 store_with_sheet_march = Inr ((4, 2), store_after_run)"
    by (rule store_run_value)
  have h2: "0 < next_id store_with_sheet_march"
    by (simp add: store_with_sheet_march_def)
  note w = shaper_repeatable_input_unchanged [OF h1 h2]
  show ?thesis
    by (rule conjI [OF h1 conjI [OF h2 w]])
qed




text \<open>
  Claim C10. When the Shaper returns on a rectangular table, the aggregate set has the
  columns of the reshaped frame and is the list of its records with a reserved label,
  each as the reshape left it: there is no column \<^verbatim>\<open>iso3\<close> and no record has a field
  \<^verbatim>\<open>iso3\<close>; the Value of each record is the cell of an input row under a data column, as
  it was read; and the aggregate set is the same for every library, that is, nothing
  that depends on name matching or number parsing reaches it.
\<close>

theorem aggregate_records_untouched:
  assumes "preprocess_data L df = Inr (c, g)" and "rectangular df"
  shows "\<exists>m. reshape df = Inr m \<and> columns g = columns m
           \<and> rows g = filter is_aggregate (rows m)
           \<and> ''iso3'' \<notin> set (columns g)
           \<and> (\<forall>r\<in>set (rows g). map_of r ''iso3'' = None \<and>
                 (\<exists>r0\<in>set (rows df). \<exists>v\<in>set (value_vars df).
                     cell_of r ''Country'' = cell_of r0 ''Country'' \<and> cell_of r ''Month'' = Str v
                   \<and> cell_of r ''Value'' = cell_of r0 v))
           \<and> (\<forall>L' c' g'. preprocess_data L' df = Inr (c', g') \<longrightarrow> g' = g)"
proof -
  from assms(1) obtain m rest d where m: "reshape df = Inr m" "''Country'' \<in> set (columns m)"
    and s: "split_aggregates m = Inr (g, rest)"
    and d: "add_iso3 L rest = Inr d" "dropna d ''iso3'' = Inr d" "coerce_values L d = Inr c"
    and g: "rows g = filter is_aggregate (rows m)" "columns g = columns m"
    and rest: "rows rest = filter (\<lambda>r. \<not> is_aggregate r) (rows m)"
    and rd: "rows d = map (\<lambda>r. AList.update ''iso3'' (iso3_code L r) r) (rows rest)"
    and rc: "rows c = map (country_record L) (rows rest)"
    by (rule preprocess_data_stages)
  from m have cols: "''iso3'' \<notin> set (columns m)"
    by (cases rule: reshape_cases) simp_all
  have rows: "map_of r ''iso3'' = None \<and>
                 (\<exists>r0\<in>set (rows df). \<exists>v\<in>set (value_vars df).
                     cell_of r ''Country'' = cell_of r0 ''Country'' \<and> cell_of r ''Month'' = Str v
                   \<and> cell_of r ''Value'' = cell_of r0 v)" if "r \<in> set (rows g)" for r
  proof -
    from that have "r \<in> set (rows m)"
      by (simp add: g)
    from reshape_origin [OF m assms(2) this] cols show ?thesis
      by (simp add: map_of_eq_None_iff flip: set_map)
  qed
  have indep: "g' = g" if "preprocess_data L' df = Inr (c', g')" for L' :: "'a library" and c' g'
  proof -
    from that obtain m' rest' d' where "reshape df = Inr m'" "''Country'' \<in> set (columns m')"
      "split_aggregates m' = Inr (g', rest')"
      "add_iso3 L' rest' = Inr d'" "dropna d' ''iso3'' = Inr d'" "coerce_values L' d' = Inr c'"
      "rows g' = filter is_aggregate (rows m')" "columns g' = columns m'"
      "rows rest' = filter (\<lambda>r. \<not> is_aggregate r) (rows m')"
      "rows d' = map (\<lambda>r. AList.update ''iso3'' (iso3_code L' r) r) (rows rest')"
      "rows c' = map (country_record L') (rows rest')"
      by (rule preprocess_data_stages)
    with m(1) g show ?thesis
      by simp
  qed
  from m(1) g cols rows indep show ?thesis
    by (intro exI [of _ m]) simp
qed

theorem aggregate_records_untouched_witness:
  "(preprocess_data example_library sheet_march = Inr (sheet_march_countries, sheet_march_aggregates)) \<and>
   (rectangular sheet_march) \<and>
   (\<exists>m. reshape sheet_march = Inr m \<and> columns sheet_march_aggregates = columns m
           \<and> rows sheet_march_aggregates = filter is_aggregate (rows m)
           \<and> ''iso3'' \<notin> set (columns sheet_march_aggregates)
           \<and> (\<forall>r\<in>set (rows sheet_march_aggregates). map_of r ''iso3'' = None \<and>
                 (\<exists>r0\<in>set (rows sheet_march). \<exists>v\<in>set (value_vars sheet_march).
                     cell_of r ''Country'' = cell_of r0 ''Country'' \<and> cell_of r ''Month'' = Str v
                   \<and> cell_of r ''Value'' = cell_of r0 v))
           \<and> (\<forall>L' c' g'. preprocess_data L' sheet_march = Inr (c', g') \<longrightarrow> g' = sheet_march_aggregates))"
proof -
  have h1: "preprocess_data example_library sheet_march = Inr (sheet_march_countries, sheet_march_aggregates)"
    by (rule sheet_march_value)
  have h2: "rectangular sheet_march"
    by (rule rectangular_sheet_march)
  note w = aggregate_records_untouched [OF h1 h2]
  show ?thesis
    by (rule conjI [OF h1 conjI [OF h2 w]])
qed

section \<open>The Loader: claim C9\<close>

text \<open>
  Claim C9. The Loader returns a pair exactly when the file is a workbook that has both
  the sheet ``MAU Signals'' and the sheet ``MAU Devices'', and the pair is those two
  sheets in that order. When one of the two sheets is absent the call ends in
  \<^verbatim>\<open>ValueError\<close>, and when the file is no workbook in the error of \<^verbatim>\<open>pd.ExcelFile\<close>; an
  error is the whole result, so no table is returned with it. The script calls
  \<^verbatim>\<open>load_data\<close> at line 44 with no handler.
\<close>

theorem loader_two_named_sheets:
  "(load_data f = Inr (s, d) \<longleftrightarrow>
      (\<exists>sheets. f = Workbook sheets \<and> map_of sheets ''MAU Signals'' = Some s
                \<and> map_of sheets ''MAU Devices'' = Some d))
   \<and> (f = Workbook sheets \<and>
        (map_of sheets ''MAU Signals'' = None \<or> map_of sheets ''MAU Devices'' = None)
        \<longrightarrow> load_data f = Inl ValueError)
   \<and> (f = Unreadable \<longrightarrow> load_data f = Inl BadFile)"
  by (cases f) (auto simp add: load_data_def ExcelFile_def read_excel_def ebind_def split: option.splits)

theorem loader_two_named_sheets_witness:
  "load_data (Workbook [(''MAU Signals'', sheet_jan_feb), (''MAU Devices'', sheet_march)])
     = Inr (sheet_jan_feb, sheet_march)
   \<and> load_data (Workbook [(''MAU Signals'', sheet_jan_feb)]) = Inl ValueError
   \<and> load_data (Unreadable :: int upload) = Inl BadFile"
proof -
  note a = loader_two_named_sheets
      [of "Workbook [(''MAU Signals'', sheet_jan_feb), (''MAU Devices'', sheet_march)]"
          sheet_jan_feb sheet_march]
  note b = loader_two_named_sheets
      [of "Workbook [(''MAU Signals'', sheet_jan_feb)]" _ _ "[(''MAU Signals'', sheet_jan_feb)]"]
  note c = loader_two_named_sheets [of "Unreadable :: int upload"]
  have 1: "load_data (Workbook [(''MAU Signals'', sheet_jan_feb), (''MAU Devices'', sheet_march)])
     = Inr (sheet_jan_feb, sheet_march)"
    using a by simp
  have 2: "load_data (Workbook [(''MAU Signals'', sheet_jan_feb)]) = Inl ValueError"
    using b by simp
  have 3: "load_data (Unreadable :: int upload) = Inl BadFile"
    using c by simp
  from 1 2 3 show ?thesis
    by simp
qed

end
